theory Spec2Isabelle
  imports Main "HOL-Library.AList"
begin

section \<open>Values and errors\<close>

text \<open>
  \<^verbatim>\<open>Json\<close> values as the table client passes them around. A JavaScript object is an
  association list in insertion order; a row is such an object.
\<close>

datatype json =
    JNull
  | JBool bool
  | JNum int
  | JStr string
  | JArr "json list"
  | JObj "(string \<times> json) list"

type_synonym row = "(string \<times> json) list"

text \<open>
  Everything the sources throw is \<^verbatim>\<open>new Error(message)\<close>. \<open>SchemaValidationError\<close> is
  what \<^verbatim>\<open>validateRow\<close> raises and \<open>SyntaxError\<close> what \<^verbatim>\<open>JSON.parse\<close> raises;
  both live outside the files modelled here.
\<close>

datatype error =
    Error string
  | SchemaValidationError string
  | SyntaxError string

section \<open>Preflight: permission inference and grants (target-tf-gcp)\<close>

subsection \<open>Roles and the table's operation vocabulary\<close>

datatype BigtablePermissions = READ | READWRITE

fun role_value :: "BigtablePermissions \<Rightarrow> string" where
  "role_value READ = ''roles/bigtable.viewer''"
| "role_value READWRITE = ''roles/bigtable.user''"

text \<open>
  Modelled from the spec: \<^verbatim>\<open>ex.TableInflightMethods\<close>, the enum of operation identifiers
  declared in \<^verbatim>\<open>../ex\<close>. The spec lists the vocabulary of a table as
  get, tryGet, list, insert, update, upsert, delete.
\<close>

definition GET :: string where "GET = ''get''"
definition TRYGET :: string where "TRYGET = ''tryGet''"
definition LIST :: string where "LIST = ''list''"
definition INSERT :: string where "INSERT = ''insert''"
definition UPDATE :: string where "UPDATE = ''update''"
definition UPSERT :: string where "UPSERT = ''upsert''"
definition DELETE :: string where "DELETE = ''delete''"

definition vocabulary :: "string list" where
  "vocabulary = [GET, TRYGET, LIST, INSERT, UPDATE, UPSERT, DELETE]"

text \<open>
  The local \<^verbatim>\<open>permissionName\<close> of \<^verbatim>\<open>Table.bind\<close>: it starts as READ and becomes
  READWRITE when \<^verbatim>\<open>ops.includes\<close> finds DELETE, UPDATE or UPSERT.
\<close>

definition permissionName :: "string list \<Rightarrow> BigtablePermissions" where
  "permissionName ops =
     (if DELETE \<in> set ops \<or> UPDATE \<in> set ops \<or> UPSERT \<in> set ops
      then READWRITE else READ)"

subsection \<open>Objects with identity\<close>

text \<open>
  \<^verbatim>\<open>Set<ScopedRoleAssignment>.has\<close> compares object references, not contents. The
  fields of a \<^verbatim>\<open>ScopedRoleAssignment\<close> are readonly, so an object is its identity
  (a number handed out by a counter at each object literal) paired with its contents.
  \<^verbatim>\<open>scope\<close> is \<open>None\<close> where the literal leaves it out.
\<close>

record ScopedRoleAssignment =
  scope :: "string option"
  roleDefinitionName :: string

type_synonym 'a object = "nat \<times> 'a"

definition Set_has :: "'a object list \<Rightarrow> 'a object \<Rightarrow> bool" where
  "Set_has s x = (fst x \<in> set (map fst s))"

definition Set_add :: "'a object \<Rightarrow> 'a object list \<Rightarrow> 'a object list" where
  "Set_add x s = (if Set_has s x then s else s @ [x])"

text \<open>\<^verbatim>\<open>String.prototype.substring(start)\<close>: a negative start counts as 0.\<close>

definition substring :: "int \<Rightarrow> string \<Rightarrow> string" where
  "substring start s = drop (nat (max 0 start)) s"

subsection \<open>The function resource and its permission map\<close>

record App =
  projectId :: string
  storageLocation :: string
  zone :: string

text \<open>
  The configuration of one \<^verbatim>\<open>CloudfunctionsFunctionIamPolicy\<close>. \<open>policyData\<close> is the
  \<^verbatim>\<open>bindings\<close> array before \<^verbatim>\<open>JSON.stringify\<close>: pairs of a role and its members.
\<close>

record CloudfunctionsFunctionIamPolicyConfig =
  project :: string
  region :: string
  cloudFunction :: string
  policyData :: "(string \<times> string option list) list"

type_synonym construct = "string \<times> CloudfunctionsFunctionIamPolicyConfig"

text \<open>
  The generated class \<^verbatim>\<open>CloudfunctionsFunctionIamPolicy\<close> (\<^verbatim>\<open>../.gen/providers/google\<close>)
  and the construct tree it registers itself in are not among the sources, so
  \<^verbatim>\<open>new CloudfunctionsFunctionIamPolicy(this, id, config)\<close> is a parameter: given the
  id, the configuration and the children of \<^verbatim>\<open>this\<close> it returns the new children or
  throws. The instance named here is the construct tree's: a child is added unless a
  sibling already has its id.
\<close>

type_synonym new_construct =
  "string \<Rightarrow> CloudfunctionsFunctionIamPolicyConfig \<Rightarrow> construct list \<Rightarrow> error + construct list"

definition new_construct_unique :: new_construct where
  "new_construct_unique cid cfg cs =
     (if cid \<in> set (map fst cs)
      then Inl (Error (''There is already a Construct with name '' @ cid))
      else Inr (cs @ [(cid, cfg)]))"

text \<open>
  The fields of \<^verbatim>\<open>Function\<close> that \<^verbatim>\<open>addPermission\<close> touches: \<^verbatim>\<open>this.function\<close> (the name
  of the cloud function once the constructor has built it), \<^verbatim>\<open>this.permissions\<close>
  (undefined until the first call) and the constructs created under \<^verbatim>\<open>this\<close>.
\<close>

record Function_obj =
  function_res :: "string option"
  permissions :: "(string \<rightharpoonup> ScopedRoleAssignment object list) option"
  children :: "construct list"

record IResource =
  node_addr :: string

definition Function_addPermission ::
  "new_construct \<Rightarrow> App \<Rightarrow> IResource \<Rightarrow> ScopedRoleAssignment object \<Rightarrow> Function_obj
     \<Rightarrow> (error + unit) \<times> Function_obj" where
  "Function_addPermission new_policy app resource scopedRoleAssignment this =
     (let perms = (case permissions this of None \<Rightarrow> Map.empty | Some m \<Rightarrow> m);
          this1 = this\<lparr>permissions := Some perms\<rparr>;
          uniqueId = substring (- 8) (node_addr resource)
      in if (case perms uniqueId of None \<Rightarrow> False
             | Some s \<Rightarrow> Set_has s scopedRoleAssignment)
         then (Inr (), this1)
         else
           (case (case function_res this1 of
                    None \<Rightarrow> Inr (children this1)
                  | Some fname \<Rightarrow>
                      new_policy (''FunctionIamPolicy-'' @ uniqueId)
                        \<lparr>project = projectId app,
                         region = storageLocation app,
                         cloudFunction = fname,
                         policyData =
                           [(roleDefinitionName (snd scopedRoleAssignment),
                             [scope (snd scopedRoleAssignment)])]\<rparr>
                        (children this1)) of
              Inl e \<Rightarrow> (Inl e, this1)
            | Inr cs \<Rightarrow>
                (let scopedRoleAssignments =
                       (case perms uniqueId of None \<Rightarrow> [] | Some s \<Rightarrow> s)
                 in (Inr (),
                     this1\<lparr>children := cs,
                           permissions :=
                             Some (perms(uniqueId \<mapsto>
                                     Set_add scopedRoleAssignment scopedRoleAssignments))\<rparr>))))"

subsection \<open>Table.bind\<close>

text \<open>
  A host is a \<^verbatim>\<open>tfgcp.Function\<close> or anything else. \<^verbatim>\<open>super.bind\<close> (the base class
  \<^verbatim>\<open>ex.Table\<close>) is not among the sources: it is a parameter that returns the error it
  throws, if any. The last argument counts the object literals evaluated so far; the
  literal passed to \<^verbatim>\<open>addPermission\<close> takes the next identity.
\<close>

datatype IInflightHost = GCPFunction Function_obj | OtherHost

type_synonym super_bind = "IInflightHost \<Rightarrow> string list \<Rightarrow> error option"

definition Table_bind ::
  "super_bind \<Rightarrow> new_construct \<Rightarrow> App \<Rightarrow> IResource \<Rightarrow> IInflightHost \<Rightarrow> string list \<Rightarrow> nat
     \<Rightarrow> (error + unit) \<times> IInflightHost \<times> nat" where
  "Table_bind super new_policy app this host ops fresh =
     (case host of
        OtherHost \<Rightarrow> (Inl (Error ''Table can only be bound by tfgcp.Function''), host, fresh)
      | GCPFunction f \<Rightarrow>
          (let literal = (fresh, \<lparr>scope = None,
                                  roleDefinitionName = role_value (permissionName ops)\<rparr>)
           in case Function_addPermission new_policy app this literal f of
                (Inl e, f') \<Rightarrow> (Inl e, GCPFunction f', Suc fresh)
              | (Inr u, f') \<Rightarrow>
                  (case super (GCPFunction f') ops of
                     Some e \<Rightarrow> (Inl e, GCPFunction f', Suc fresh)
                   | None \<Rightarrow> (Inr (), GCPFunction f', Suc fresh))))"

text \<open>The ledger as the synthesizer reads it: the roles recorded for a producer.\<close>

definition grants :: "Function_obj \<Rightarrow> IResource \<Rightarrow> string list" where
  "grants f resource =
     (case permissions f of
        None \<Rightarrow> []
      | Some m \<Rightarrow>
          (case m (substring (- 8) (node_addr resource)) of
             None \<Rightarrow> []
           | Some s \<Rightarrow> map (\<lambda>x. roleDefinitionName (snd x)) s))"

definition host_grants :: "IInflightHost \<Rightarrow> IResource \<Rightarrow> string list" where
  "host_grants host resource =
     (case host of GCPFunction f \<Rightarrow> grants f resource | OtherHost \<Rightarrow> [])"

text \<open>
  A run of bind calls on one table and one host, in order; synthesis stops at the first
  call that throws.
\<close>

fun bind_all ::
  "super_bind \<Rightarrow> new_construct \<Rightarrow> App \<Rightarrow> IResource \<Rightarrow> IInflightHost \<Rightarrow> string list list \<Rightarrow> nat
     \<Rightarrow> (error + unit) \<times> IInflightHost \<times> nat" where
  "bind_all super new_policy app this host [] fresh = (Inr (), host, fresh)"
| "bind_all super new_policy app this host (ops # rest) fresh =
     (case Table_bind super new_policy app this host ops fresh of
        (Inl e, host', fresh') \<Rightarrow> (Inl e, host', fresh')
      | (Inr u, host', fresh') \<Rightarrow> bind_all super new_policy app this host' rest fresh')"

text \<open>
  Well-formedness of the object identities: every object already in a permission set was
  created before the counter reached \<open>n\<close>.
\<close>

definition refs_below :: "nat \<Rightarrow> Function_obj \<Rightarrow> bool" where
  "refs_below n f =
     (case permissions f of
        None \<Rightarrow> True
      | Some m \<Rightarrow> (\<forall>s \<in> ran m. \<forall>x \<in> set s. fst x < n))"

definition host_refs_below :: "nat \<Rightarrow> IInflightHost \<Rightarrow> bool" where
  "host_refs_below n host =
     (case host of GCPFunction f \<Rightarrow> refs_below n f | OtherHost \<Rightarrow> True)"

definition host_children :: "IInflightHost \<Rightarrow> construct list" where
  "host_children host = (case host of GCPFunction f \<Rightarrow> children f | OtherHost \<Rightarrow> [])"

subsection \<open>The constructor of Table\<close>

text \<open>
  \<^verbatim>\<open>ResourceNames.generateName\<close> is not among the sources; it is a parameter that maps
  the name options it is called with to a name. The two option records only matter to
  it, so they are tags here.
\<close>

datatype NameOptions = TABLE_NAME_OPTS | INSTANCE_NAME_OPTS

record BigtableInstanceClusterAutoscalingConfig =
  minNodes :: nat
  maxNodes :: nat
  cpuTarget :: nat

record BigtableInstanceCluster =
  clusterId :: string
  storageType :: string
  cluster_zone :: string
  autoscalingConfig :: BigtableInstanceClusterAutoscalingConfig

record BigtableInstanceConfig =
  instance_name :: string
  cluster :: "BigtableInstanceCluster list"

record BigtableTableConfig =
  table_name :: string
  instanceName :: string
  columnFamily :: "string list"
  table_project :: string

datatype table_construct =
    BigtableInstance string BigtableInstanceConfig
  | BigtableTable string BigtableTableConfig

text \<open>
  The properties the constructor reads: \<^verbatim>\<open>this.columns\<close> (set by the base constructor)
  and \<^verbatim>\<open>props.initialRows\<close>, \<open>None\<close> when undefined. An object is truthy even when it
  is empty, so \<^verbatim>\<open>if (props.initialRows)\<close> tests definedness.
\<close>

record TableProps =
  table_columns :: "(string \<times> json) list"
  initialRows :: "(string \<times> row) list option"

text \<open>
  The constructor after \<^verbatim>\<open>super(scope, id, props)\<close> has returned. \<open>emitted\<close> are the
  constructs created under the table so far; the result pairs the outcome with them.
\<close>

definition Table_constructor ::
  "(NameOptions \<Rightarrow> string) \<Rightarrow> App \<Rightarrow> TableProps \<Rightarrow> table_construct list
     \<Rightarrow> (error + unit) \<times> table_construct list" where
  "Table_constructor generateName app props emitted =
     (if initialRows props \<noteq> None
      then (Inl (Error ''property initialRows is not supported for the GCP target''), emitted)
      else
        (let tableName = generateName TABLE_NAME_OPTS;
             instanceName' = generateName INSTANCE_NAME_OPTS;
             columnsFamily = map fst (table_columns props);
             autoscalingConfig' = \<lparr>minNodes = 1, maxNodes = 3, cpuTarget = 35\<rparr>;
             instanceCluster = \<lparr>clusterId = ''default'', storageType = ''SSD'',
                                cluster_zone = zone app,
                                autoscalingConfig = autoscalingConfig'\<rparr>;
             instanceConfig = \<lparr>instance_name = instanceName', cluster = [instanceCluster]\<rparr>;
             tableConfig = \<lparr>table_name = tableName, instanceName = instanceName',
                            columnFamily = columnsFamily, table_project = projectId app\<rparr>
         in (Inr (),
             emitted @ [BigtableInstance ''Instance'' instanceConfig,
                        BigtableTable ''Default'' tableConfig])))"

section \<open>Inflight: the table client (shared-gcp)\<close>

subsection \<open>The schema and its validation\<close>

type_synonym schema = "(string \<times> json) list"

text \<open>
  Modelled from the spec: \<^verbatim>\<open>validateRow\<close> of \<^verbatim>\<open>../shared/table-utils\<close>, which is not among
  the sources. The spec: all rows written must validate against the column schema,
  attempts to write undeclared fields fail, with a \<open>SchemaValidationError\<close> referencing
  the field. The fields are visited in the order of \<^verbatim>\<open>Object.entries\<close>.
\<close>

fun validateRow :: "row \<Rightarrow> schema \<Rightarrow> error + unit" where
  "validateRow [] cols = Inr ()"
| "validateRow ((f, v) # rest) cols =
     (if f \<in> set (map fst cols) then validateRow rest cols
      else Inl (SchemaValidationError f))"

subsection \<open>The backend\<close>

text \<open>
  Modelled from the spec: the physical backend, the Bigtable service reached through
  \<^verbatim>\<open>@google-cloud/bigtable\<close>. The spec: a row is identified by a unique key (a string),
  its value is a mapping from field name to value, with no versioning and
  last-write-wins per field. The store maps a key to the data of its row; the calls below
  are the ones the client makes. \<^verbatim>\<open>table.insert(entry)\<close> files the entry under its
  \<^verbatim>\<open>key\<close> property and keeps the other properties as the data;
  \<^verbatim>\<open>row.save(family, value)\<close> sets one field of a row.
\<close>

type_synonym bigtable = "string \<rightharpoonup> row"

definition row_exists :: "bigtable \<Rightarrow> string \<Rightarrow> bool" where
  "row_exists t k = (t k \<noteq> None)"

definition row_data :: "bigtable \<Rightarrow> string \<Rightarrow> row" where
  "row_data t k = (case t k of None \<Rightarrow> [] | Some d \<Rightarrow> d)"

definition table_insert :: "row \<Rightarrow> bigtable \<Rightarrow> error + bigtable" where
  "table_insert entry t =
     (case map_of entry ''key'' of
        Some (JStr k) \<Rightarrow> Inr (t(k \<mapsto> AList.delete ''key'' entry))
      | _ \<Rightarrow> Inl (Error ''insert: the entry has no string key''))"

definition row_save :: "string \<Rightarrow> string \<Rightarrow> json \<Rightarrow> bigtable \<Rightarrow> bigtable" where
  "row_save k family v t = t(k \<mapsto> AList.update family v (row_data t k))"

definition row_delete :: "string \<Rightarrow> bigtable \<Rightarrow> bigtable" where
  "row_delete k t = t(k := None)"

subsection \<open>TableClient\<close>

text \<open>
  The object spread \<^verbatim>\<open>{ ...base, ...r }\<close>: the properties of \<open>r\<close> are assigned in order,
  in place where \<open>base\<close> already has the property and at the end otherwise.
\<close>

definition spread :: "row \<Rightarrow> row \<Rightarrow> row" where
  "spread base r = foldl (\<lambda>acc (f, v). AList.update f v acc) base r"

text \<open>\<^verbatim>\<open>const [family] = column.split(':')\<close>: the text before the first colon.\<close>

definition split_first :: "string \<Rightarrow> string" where
  "split_first column = takeWhile (\<lambda>c. c \<noteq> CHR '':'') column"

text \<open>
  The two existence errors, under the names the spec gives them; the sources throw
  \<^verbatim>\<open>new Error\<close> with these messages.
\<close>

definition AlreadyExistsError :: "string \<Rightarrow> error" where
  "AlreadyExistsError key = Error (''Row with key='' @ key @ '' already exists in the table'')"

definition NotFoundError :: "string \<Rightarrow> error" where
  "NotFoundError key = Error (''Row with key='' @ key @ '' does not exist in the table'')"

text \<open>
  \<^verbatim>\<open>columns\<close> is a readonly string that every write parses again with \<^verbatim>\<open>JSON.parse\<close>;
  the field holds the outcome of that parse, \<open>None\<close> when the string is not JSON.
\<close>

record TableClient =
  tableName :: string
  instanceId :: string
  columns :: "schema option"

text \<open>\<^verbatim>\<open>validateRow(row, JSON.parse(this.columns))\<close>, the first statement of every write.\<close>

definition validate_columns :: "TableClient \<Rightarrow> row \<Rightarrow> error + unit" where
  "validate_columns c r =
     (case columns c of
        None \<Rightarrow> Inl (SyntaxError ''JSON.parse'')
      | Some cols \<Rightarrow> validateRow r cols)"

definition TableClient_insert ::
  "TableClient \<Rightarrow> string \<Rightarrow> row \<Rightarrow> bigtable \<Rightarrow> (error + unit) \<times> bigtable" where
  "TableClient_insert c key r t =
     (case validate_columns c r of
        Inl e \<Rightarrow> (Inl e, t)
      | Inr u \<Rightarrow>
          (let insertRow = spread [(''key'', JStr key)] r
           in if row_exists t key then (Inl (AlreadyExistsError key), t)
              else (case table_insert insertRow t of
                      Inl e \<Rightarrow> (Inl e, t)
                    | Inr t' \<Rightarrow> (Inr (), t'))))"

definition TableClient_update ::
  "TableClient \<Rightarrow> string \<Rightarrow> row \<Rightarrow> bigtable \<Rightarrow> (error + unit) \<times> bigtable" where
  "TableClient_update c key r t =
     (case validate_columns c r of
        Inl e \<Rightarrow> (Inl e, t)
      | Inr u \<Rightarrow>
          (if \<not> row_exists t key then (Inl (NotFoundError key), t)
           else (Inr (),
                 foldl (\<lambda>t' (column, v). row_save key (split_first column) v t') t r)))"

definition TableClient_upsert ::
  "TableClient \<Rightarrow> string \<Rightarrow> row \<Rightarrow> bigtable \<Rightarrow> (error + unit) \<times> bigtable" where
  "TableClient_upsert c key r t =
     (case validate_columns c r of
        Inl e \<Rightarrow> (Inl e, t)
      | Inr u \<Rightarrow>
          (if row_exists t key then TableClient_update c key r t
           else TableClient_insert c key r t))"

definition TableClient_delete ::
  "TableClient \<Rightarrow> string \<Rightarrow> bigtable \<Rightarrow> (error + unit) \<times> bigtable" where
  "TableClient_delete c key t =
     (if \<not> row_exists t key then (Inl (NotFoundError key), t)
      else (Inr (), row_delete key t))"

text \<open>
  \<^verbatim>\<open>Json.parse\<close> and \<^verbatim>\<open>Json.stringify\<close> (\<^verbatim>\<open>../std\<close>) are not among the sources; the two
  readers take them as parameters. \<^verbatim>\<open>get\<close> hands \<^verbatim>\<open>row.data\<close> to \<^verbatim>\<open>Json.parse\<close> as it
  is, \<^verbatim>\<open>tryGet\<close> stringifies it first. \<^verbatim>\<open>undefined\<close> is \<open>None\<close>.
\<close>

definition TableClient_get ::
  "(json \<Rightarrow> error + json) \<Rightarrow> TableClient \<Rightarrow> string \<Rightarrow> bigtable \<Rightarrow> error + json" where
  "TableClient_get Json_parse c key t =
     (if \<not> row_exists t key then Inl (NotFoundError key)
      else Json_parse (JObj (row_data t key)))"

definition TableClient_tryGet ::
  "(json \<Rightarrow> error + json) \<Rightarrow> (json \<Rightarrow> string) \<Rightarrow> TableClient \<Rightarrow> string \<Rightarrow> bigtable
     \<Rightarrow> error + json option" where
  "TableClient_tryGet Json_parse Json_stringify c key t =
     (if \<not> row_exists t key then Inr None
      else (case Json_parse (JStr (Json_stringify (JObj (row_data t key)))) of
              Inl e \<Rightarrow> Inl e
            | Inr j \<Rightarrow> Inr (Some j)))"

section \<open>Sample inputs\<close>

text \<open>
  A function whose constructor has finished and that has no permissions yet, a table, an
  app, and two behaviours of \<^verbatim>\<open>super.bind\<close>: one that returns, and one that rejects an
  empty operation set as the spec asks of the binding protocol.
\<close>

definition fn0 :: Function_obj where
  "fn0 = \<lparr>function_res = Some ''fn'', permissions = None, children = []\<rparr>"

definition table0 :: IResource where
  "table0 = \<lparr>node_addr = ''c8f1a2b3c4d5e6f7''\<rparr>"

definition app0 :: App where
  "app0 = \<lparr>projectId = ''my-project'', storageLocation = ''US'', zone = ''us-central1-a''\<rparr>"

definition super_bind_returns :: super_bind where
  "super_bind_returns host ops = None"

definition super_bind_nonempty :: super_bind where
  "super_bind_nonempty host ops =
     (if ops = [] then Some (Error ''empty operations'') else None)"

text \<open>A client whose schema declares the one column \<open>col\<close>, and one that also declares \<open>key\<close>.\<close>

definition client0 :: TableClient where
  "client0 = \<lparr>tableName = ''t'', instanceId = ''i'',
               columns = Some [(''col'', JStr ''string'')]\<rparr>"

definition client_key :: TableClient where
  "client_key = \<lparr>tableName = ''t'', instanceId = ''i'',
                  columns = Some [(''key'', JStr ''string''), (''col'', JStr ''string'')]\<rparr>"

section \<open>Role inference\<close>

text \<open>
  C3. The role inferred from an operation set is READWRITE exactly when the set contains
  delete, update or upsert, and READ otherwise; every entry of the vocabulary maps to one
  of the two roles.
\<close>

theorem C3_permissionName:
  "(permissionName ops = READWRITE)
     = (''delete'' \<in> set ops \<or> ''update'' \<in> set ops \<or> ''upsert'' \<in> set ops)
   \<and> (permissionName ops = READ)
     = (''delete'' \<notin> set ops \<and> ''update'' \<notin> set ops \<and> ''upsert'' \<notin> set ops)
   \<and> map (\<lambda>x. permissionName [x]) vocabulary
     = [READ, READ, READ, READ, READWRITE, READWRITE, READWRITE]"
  by (simp add: permissionName_def vocabulary_def GET_def TRYGET_def LIST_def INSERT_def
        UPDATE_def UPSERT_def DELETE_def)


section \<open>The ledger after bind\<close>

lemma Set_has_fresh:
  "\<forall>x \<in> set s. fst x < n \<Longrightarrow> \<not> Set_has s (n, a)"
  by (auto simp: Set_has_def)

lemma Set_has_Nil: "\<not> Set_has [] x"
  by (simp add: Set_has_def)

text \<open>
  An object literal evaluated at the call is in no permission set yet, so the early
  return of \<^verbatim>\<open>addPermission\<close> is not taken: unless creating the policy throws, the
  set of the producer grows by one entry; when it throws, the set is as it was.
\<close>

lemma addPermission_fresh_grants:
  assumes "refs_below n f" and "Function_addPermission np app r (n, a) f = (res, f')"
  shows "grants f' r =
     (case res of Inl e \<Rightarrow> grants f r | Inr u \<Rightarrow> grants f r @ [roleDefinitionName a])"
proof -
  let ?uid = "substring (- 8) (node_addr r)"
  have fresh: "\<not> Set_has s (n, a)" if "permissions f = Some m" "m ?uid = Some s" for m s
  proof -
    from that have "s \<in> ran m" by (auto simp: ran_def)
    with assms(1) that(1) have "\<forall>x \<in> set s. fst x < n" by (simp add: refs_below_def)
    then show ?thesis by (rule Set_has_fresh)
  qed
  show ?thesis
    using assms(2) fresh
    by (auto simp: Function_addPermission_def Let_def grants_def Set_add_def Set_has_Nil
          split: option.splits sum.splits if_splits)
qed


text \<open>
  Whatever \<^verbatim>\<open>super.bind\<close> does, the host that bind leaves is the one \<^verbatim>\<open>addPermission\<close>
  left; and bind fails on a function host only where \<^verbatim>\<open>addPermission\<close> or
  \<^verbatim>\<open>super.bind\<close> throws.
\<close>

lemma Table_bind_host:
  "fst (snd (Table_bind sb np app T (GCPFunction f) ops n))
     = GCPFunction (snd (Function_addPermission np app T
         (n, \<lparr>scope = None, roleDefinitionName = role_value (permissionName ops)\<rparr>) f))"
  by (simp add: Table_bind_def Let_def split: prod.splits sum.splits option.splits)

lemma Table_bind_outcome:
  "fst (Table_bind sb np app T (GCPFunction f) ops n)
     = (case Function_addPermission np app T
              (n, \<lparr>scope = None, roleDefinitionName = role_value (permissionName ops)\<rparr>) f of
          (Inl e, f') \<Rightarrow> Inl e
        | (Inr u, f') \<Rightarrow> (case sb (GCPFunction f') ops of Some e \<Rightarrow> Inl e | None \<Rightarrow> Inr ()))"
  by (simp add: Table_bind_def Let_def split: prod.splits sum.splits option.splits)


lemma Table_bind_OtherHost:
  "Table_bind sb np app T OtherHost ops n
     = (Inl (Error ''Table can only be bound by tfgcp.Function''), OtherHost, n)"
  by (simp add: Table_bind_def)


lemmas bind_eval =
  Table_bind_def Function_addPermission_def Let_def fn0_def table0_def
  app0_def super_bind_returns_def super_bind_nonempty_def
  new_construct_unique_def Set_has_def Set_add_def substring_def permissionName_def
  host_grants_def grants_def host_children_def host_refs_below_def refs_below_def
  UPDATE_def UPSERT_def DELETE_def

text \<open>
  C1. The claim: binding twice with the same operation set creates no duplicate grant, at
  most one grant exists per (producer, principal, role), and the second call is a no-op
  that emits nothing. The code at \<^verbatim>\<open>bind(fn, ["get"])\<close> called twice on one table:
  \<^verbatim>\<open>Set.has\<close> is asked about the object literal of the second call, which no set holds,
  so the early return is skipped and the policy is constructed again under the id of the
  first. The construct tree refuses the repeated id: the second call throws, with the
  viewer grant and the policy of the first call in place.
\<close>

theorem C1_rebind_same_operations:
  "(let R = bind_all super_bind_returns new_construct_unique app0 table0 (GCPFunction fn0)
              [[''get''], [''get'']] 0
    in fst R = Inl (Error
           ''There is already a Construct with name FunctionIamPolicy-c8f1a2b3c4d5e6f7'')
       \<and> host_grants (fst (snd R)) table0 = [''roles/bigtable.viewer'']
       \<and> map fst (host_children (fst (snd R))) = [''FunctionIamPolicy-c8f1a2b3c4d5e6f7''])
   \<and> fst (Table_bind super_bind_returns new_construct_unique app0 table0 (GCPFunction fn0)
            [''get''] 0) = Inr ()"
  by (simp add: bind_eval)




text \<open>
  C9, as amended. A bind whose consumer is not a \<^verbatim>\<open>tfgcp.Function\<close> is rejected at the
  call and changes nothing: no grant is recorded. An empty operation set is not rejected
  by \<^verbatim>\<open>Table.bind\<close>: on a function host the call returns whenever creating the policy
  and \<^verbatim>\<open>super.bind\<close> return, it infers READ and, unless creating the policy throws,
  the grant is in the ledger before \<^verbatim>\<open>super.bind\<close> runs, whatever \<^verbatim>\<open>super.bind\<close>
  then does.
\<close>

theorem C9_bind_validation:
  "Table_bind super new_policy app this OtherHost ops fresh
     = (Inl (Error ''Table can only be bound by tfgcp.Function''), OtherHost, fresh)
   \<and> (fst (Function_addPermission new_policy app this
              (fresh, \<lparr>scope = None, roleDefinitionName = role_value READ\<rparr>) f) = Inr ()
       \<and> super (GCPFunction (snd (Function_addPermission new_policy app this
              (fresh, \<lparr>scope = None, roleDefinitionName = role_value READ\<rparr>) f))) [] = None
       \<longrightarrow> fst (Table_bind super new_policy app this (GCPFunction f) [] fresh) = Inr ())
   \<and> (refs_below fresh f
       \<and> fst (Function_addPermission new_policy app this
                (fresh, \<lparr>scope = None, roleDefinitionName = role_value READ\<rparr>) f) = Inr ()
       \<longrightarrow> host_grants (fst (snd (Table_bind super new_policy app this (GCPFunction f) []
                                     fresh))) this
             = grants f this @ [role_value READ])"
proof -
  let ?lit = "\<lparr>scope = None, roleDefinitionName = role_value READ\<rparr>"
  let ?A = "Function_addPermission new_policy app this (fresh, ?lit) f"
  have lit: "\<lparr>scope = None, roleDefinitionName = role_value (permissionName [])\<rparr> = ?lit"
    by (simp add: permissionName_def)
  have ret: "fst (Table_bind super new_policy app this (GCPFunction f) [] fresh) = Inr ()"
    if ok: "fst ?A = Inr ()" and sb: "super (GCPFunction (snd ?A)) [] = None"
  proof -
    from ok have ap: "?A = (Inr (), snd ?A)" by (metis prod.collapse)
    show ?thesis
      unfolding Table_bind_outcome lit using sb by (subst ap) simp
  qed
  have led: "host_grants (fst (snd (Table_bind super new_policy app this (GCPFunction f) []
                                 fresh))) this
          = grants f this @ [role_value READ]"
    if inv: "refs_below fresh f" and ok: "fst ?A = Inr ()"
  proof -
    from ok have ap: "?A = (Inr (), snd ?A)" by (metis prod.collapse)
    from addPermission_fresh_grants [OF inv ap]
    have "grants (snd ?A) this = grants f this @ [role_value READ]" by simp
    then show ?thesis
      by (simp add: Table_bind_host permissionName_def host_grants_def)
  qed
  from ret led show ?thesis by (simp add: Table_bind_OtherHost)
qed

theorem C9_bind_validation_witness:
  "Table_bind super_bind_returns new_construct_unique app0 table0 OtherHost [] 0
     = (Inl (Error ''Table can only be bound by tfgcp.Function''), OtherHost, 0)
   \<and> refs_below 0 fn0
   \<and> fst (Function_addPermission new_construct_unique app0 table0
            (0, \<lparr>scope = None, roleDefinitionName = role_value READ\<rparr>) fn0) = Inr ()
   \<and> super_bind_returns (GCPFunction (snd (Function_addPermission new_construct_unique app0
            table0 (0, \<lparr>scope = None, roleDefinitionName = role_value READ\<rparr>) fn0))) [] = None
   \<and> fst (Table_bind super_bind_returns new_construct_unique app0 table0 (GCPFunction fn0)
            [] 0) = Inr ()
   \<and> host_grants (fst (snd (Table_bind super_bind_returns new_construct_unique app0 table0
                              (GCPFunction fn0) [] 0))) table0
       = grants fn0 table0 @ [role_value READ]"
proof -
  have inv: "refs_below 0 fn0" by (simp add: refs_below_def fn0_def)
  have ok: "fst (Function_addPermission new_construct_unique app0 table0
              (0, \<lparr>scope = None, roleDefinitionName = role_value READ\<rparr>) fn0) = Inr ()"
    by (simp add: bind_eval)
  have sb: "super_bind_returns (GCPFunction (snd (Function_addPermission new_construct_unique
              app0 table0 (0, \<lparr>scope = None, roleDefinitionName = role_value READ\<rparr>) fn0))) []
            = None"
    by (simp add: super_bind_returns_def)
  from C9_bind_validation [of super_bind_returns new_construct_unique app0 table0 "[]" 0 fn0]
    inv ok sb
  show ?thesis by simp
qed

text \<open>
  The claim as stated fails at a function host and the empty operation set: with a
  \<^verbatim>\<open>super.bind\<close> that returns, the call succeeds and records the viewer grant; with one
  that rejects the empty set, the call fails and the viewer grant is recorded all the
  same.
\<close>

theorem C9_counterexample:
  "fst (Table_bind super_bind_returns new_construct_unique app0 table0 (GCPFunction fn0) [] 0)
     = Inr ()
   \<and> host_grants (fst (snd (Table_bind super_bind_returns new_construct_unique app0 table0
                              (GCPFunction fn0) [] 0))) table0
       = [''roles/bigtable.viewer'']
   \<and> fst (Table_bind super_bind_nonempty new_construct_unique app0 table0 (GCPFunction fn0) [] 0)
       = Inl (Error ''empty operations'')
   \<and> host_grants (fst (snd (Table_bind super_bind_nonempty new_construct_unique app0 table0
                              (GCPFunction fn0) [] 0))) table0
       = [''roles/bigtable.viewer'']"
  by (simp add: bind_eval)

section \<open>Synthesis of a table with initial rows\<close>

text \<open>
  C8. A table configured with initial rows fails at construction with the error
  \<^verbatim>\<open>property initialRows is not supported for the GCP target\<close>, and none of its
  constructs (the Bigtable instance, the Bigtable table) is emitted.
\<close>

theorem C8_initialRows_unsupported:
  "Table_constructor generateName app (props\<lparr>initialRows := Some rows\<rparr>) emitted
     = (Inl (Error ''property initialRows is not supported for the GCP target''), emitted)"
  by (simp add: Table_constructor_def)


section \<open>The table client\<close>

subsection \<open>Validation\<close>

lemma validateRow_undeclared:
  "f \<in> fst ` set r \<Longrightarrow> f \<notin> fst ` set cols \<Longrightarrow>
     \<exists>g. g \<in> fst ` set r \<and> g \<notin> fst ` set cols
         \<and> validateRow r cols = Inl (SchemaValidationError g)"
  by (induction r cols rule: validateRow.induct) auto

lemma validateRow_Inl:
  "validateRow r cols = Inl e \<Longrightarrow>
     \<exists>g. g \<in> fst ` set r \<and> g \<notin> fst ` set cols \<and> e = SchemaValidationError g"
  by (induction r cols rule: validateRow.induct) (auto split: if_splits)

subsection \<open>What insert stores\<close>

lemma update_fresh: "f \<notin> fst ` set al \<Longrightarrow> AList.update f v al = al @ [(f, v)]"
  by (induction al) auto

lemma spread_fresh:
  "distinct (map fst r) \<Longrightarrow> fst ` set r \<inter> fst ` set base = {} \<Longrightarrow> spread base r = base @ r"
  unfolding spread_def
proof (induction r arbitrary: base)
  case Nil
  then show ?case by simp
next
  case (Cons x r)
  obtain f v where x: "x = (f, v)" by (cases x)
  from Cons.prems x have "f \<notin> fst ` set base" by auto
  then have u: "AList.update f v base = base @ [(f, v)]" by (rule update_fresh)
  from Cons.prems x have "fst ` set r \<inter> fst ` set (base @ [(f, v)]) = {}" by auto
  with Cons.IH [of "base @ [(f, v)]"] Cons.prems x u show ?case by simp
qed

lemma delete_absent: "k \<notin> fst ` set al \<Longrightarrow> AList.delete k al = al"
  by (induction al) auto

text \<open>A row with no field named \<open>key\<close> is filed under the key of the call, as it is.\<close>

lemma insert_key_row:
  assumes "distinct (map fst r)" and "''key'' \<notin> fst ` set r"
  shows "table_insert (spread [(''key'', JStr k)] r) t = Inr (t(k \<mapsto> r))"
proof -
  from assms have "spread [(''key'', JStr k)] r = (''key'', JStr k) # r"
    by (simp add: spread_fresh)
  then show ?thesis using assms(2) by (simp add: table_insert_def delete_absent)
qed

lemma insert_new_row:
  assumes "TableClient_insert c k r t = (Inr (), t1)"
    and "distinct (map fst r)" and "''key'' \<notin> fst ` set r"
  shows "t1 = t(k \<mapsto> r)"
  using assms(1)
  by (auto simp: TableClient_insert_def Let_def insert_key_row [OF assms(2,3)]
      split: sum.splits if_splits)

lemmas table_eval =
  TableClient_insert_def TableClient_update_def TableClient_upsert_def
  TableClient_delete_def TableClient_get_def TableClient_tryGet_def validate_columns_def
  client0_def client_key_def Let_def spread_def table_insert_def row_exists_def
  row_save_def row_delete_def row_data_def AlreadyExistsError_def NotFoundError_def
  split_first_def

subsection \<open>upsert, then get\<close>

lemma split_first_no_colon: "CHR '':'' \<notin> set column \<Longrightarrow> split_first column = column"
  by (auto simp: split_first_def takeWhile_eq_all_conv)

text \<open>
  The loop of update: once the row exists, the saves change the data of that row only,
  one field per entry of the row, in the order of \<^verbatim>\<open>Object.entries\<close>.
\<close>

lemma save_all:
  "row_exists t k \<Longrightarrow>
   foldl (\<lambda>t' (column, v). row_save k (g column) v t') t r
     = t(k \<mapsto> foldl (\<lambda>d (column, v). AList.update (g column) v d) (row_data t k) r)"
proof (induction r arbitrary: t)
  case Nil
  then show ?case by (auto simp: row_exists_def row_data_def)
next
  case (Cons x r)
  obtain c v where x: "x = (c, v)" by (cases x)
  let ?F = "\<lambda>t' (column, v). row_save k (g column) v t'"
  let ?U = "\<lambda>d (column, v). AList.update (g column) v d"
  let ?t1 = "row_save k (g c) v t"
  have e: "row_exists ?t1 k" by (simp add: row_exists_def row_save_def)
  have d: "row_data ?t1 k = AList.update (g c) v (row_data t k)"
    by (simp add: row_data_def row_save_def)
  have "foldl ?F t (x # r) = foldl ?F ?t1 r" using x by simp
  also have "\<dots> = ?t1(k \<mapsto> foldl ?U (row_data ?t1 k) r)" by (rule Cons.IH [OF e])
  also have "\<dots> = ?t1(k \<mapsto> foldl ?U (AList.update (g c) v (row_data t k)) r)"
    by (simp only: d)
  also have "\<dots> = t(k \<mapsto> foldl ?U (row_data t k) (x # r))"
    using x by (simp add: row_save_def)
  finally show ?case .
qed

lemma map_of_updates:
  "map_of (foldl (\<lambda>d (column, v). AList.update (g column) v d) d r)
     = map_of d ++ map_of (rev (map (\<lambda>(column, v). (g column, v)) r))"
proof (induction r arbitrary: d)
  case Nil
  then show ?case by simp
next
  case (Cons x r)
  obtain c v where x: "x = (c, v)" by (cases x)
  let ?U = "\<lambda>d (column, v). AList.update (g column) v d"
  let ?G = "\<lambda>(column, v). (g column, v)"
  have "map_of (foldl ?U d (x # r)) = map_of (foldl ?U (AList.update (g c) v d) r)"
    using x by simp
  also have "\<dots> = map_of (AList.update (g c) v d) ++ map_of (rev (map ?G r))"
    by (rule Cons.IH)
  also have "\<dots> = map_of d ++ map_of (rev (map ?G (x # r)))"
    using x by (auto simp: update_conv' map_add_def fun_eq_iff split: option.splits)
  finally show ?case .
qed

lemma map_of_rev_distinct: "distinct (map fst r) \<Longrightarrow> map_of (rev r) = map_of r"
  by (subst map_of_inject_set) (simp_all add: rev_map [symmetric])

text \<open>
  Where the round trip holds in this model: a row that validates, has no field named
  \<open>key\<close> and no colon in a field name is stored merged onto the prior state of its key.
\<close>

lemma upsert_round_trip:
  assumes "columns c = Some cols" and "validateRow r cols = Inr ()"
    and "distinct (map fst r)" and "''key'' \<notin> fst ` set r"
    and "\<forall>f \<in> fst ` set r. CHR '':'' \<notin> set f"
  shows "\<exists>t1. TableClient_upsert c k r t = (Inr (), t1)
            \<and> row_exists t1 k
            \<and> map_of (row_data t1 k) = map_of (row_data t k) ++ map_of r"
proof -
  from assms(1,2) have v: "validate_columns c r = Inr ()" by (simp add: validate_columns_def)
  show ?thesis
  proof (cases "row_exists t k")
    case True
    have "map (\<lambda>(column, v). (split_first column, v)) r = r"
      using assms(5) by (intro map_idI) (auto simp: split_first_no_colon)
    then have "map_of (foldl (\<lambda>d (column, v). AList.update (split_first column) v d)
                        (row_data t k) r)
                 = map_of (row_data t k) ++ map_of r"
      by (simp add: map_of_updates map_of_rev_distinct [OF assms(3)])
    with True v show ?thesis
      by (simp add: TableClient_upsert_def TableClient_update_def save_all row_exists_def
          row_data_def)
  next
    case False
    with v show ?thesis
      by (simp add: TableClient_upsert_def TableClient_insert_def Let_def
          insert_key_row [OF assms(3,4)] row_exists_def row_data_def)
  qed
qed

text \<open>
  C4. The claim: for every key and schema-valid row, upsert succeeds and a following get
  of the key returns the row merged onto the prior state. The code at a schema that
  declares a column \<open>key\<close>, an empty table and \<^verbatim>\<open>upsert("k1", {key: "k2"})\<close>: insert
  builds \<^verbatim>\<open>{ key: key, ...row }\<close>, the spread overwrites the key of the call with the
  field of the row, and the entry goes to the backend under \<open>k2\<close>. The upsert returns,
  and \<^verbatim>\<open>get("k1")\<close> fails: the row does not exist.
\<close>

theorem C4_upsert_row_with_key_field:
  "fst (TableClient_upsert client_key ''k1'' [(''key'', JStr ''k2'')] Map.empty) = Inr ()
   \<and> TableClient_get Json_parse client_key ''k1''
        (snd (TableClient_upsert client_key ''k1'' [(''key'', JStr ''k2'')] Map.empty))
       = Inl (NotFoundError ''k1'')
   \<and> snd (TableClient_upsert client_key ''k1'' [(''key'', JStr ''k2'')] Map.empty) ''k2''
       = Some []"
  by (simp add: table_eval)

subsection \<open>insert on a key that exists\<close>

text \<open>
  C5, as amended. If insert(k, r) succeeded, for a row r with no field named \<open>key\<close>, the
  table stores r under k, and a second insert(k, r2) fails and leaves the table as it
  was: with the validation error when r2 does not validate against the schema (validation
  comes first), with AlreadyExistsError when it does.
\<close>

theorem C5_second_insert_fails:
  assumes "columns c = Some cols"
    and "TableClient_insert c k r t = (Inr (), t1)"
    and "distinct (map fst r)" and "''key'' \<notin> fst ` set r"
  shows "t1 k = Some r
     \<and> TableClient_insert c k r2 t1
         = (Inl (case validateRow r2 cols of Inl e \<Rightarrow> e | Inr u \<Rightarrow> AlreadyExistsError k), t1)"
proof -
  from insert_new_row [OF assms(2-4)] have "t1 = t(k \<mapsto> r)" .
  then show ?thesis using assms(1)
    by (auto simp: TableClient_insert_def validate_columns_def Let_def row_exists_def
        split: sum.splits)
qed

theorem C5_second_insert_fails_witness:
  "columns client0 = Some [(''col'', JStr ''string'')]
   \<and> fst (TableClient_insert client0 ''row1'' [(''col'', JStr ''a'')] Map.empty) = Inr ()
   \<and> distinct (map fst [(''col'', JStr ''a'')])
   \<and> ''key'' \<notin> fst ` set [(''col'', JStr ''a'')]
   \<and> snd (TableClient_insert client0 ''row1'' [(''col'', JStr ''a'')] Map.empty) ''row1''
       = Some [(''col'', JStr ''a'')]
   \<and> TableClient_insert client0 ''row1'' [(''col'', JStr ''b'')]
        (snd (TableClient_insert client0 ''row1'' [(''col'', JStr ''a'')] Map.empty))
       = (Inl (AlreadyExistsError ''row1''),
          snd (TableClient_insert client0 ''row1'' [(''col'', JStr ''a'')] Map.empty))"
proof -
  let ?r = "[(''col'', JStr ''a'')]"
  let ?R = "TableClient_insert client0 ''row1'' ?r Map.empty"
  have cols: "columns client0 = Some [(''col'', JStr ''string'')]" by (simp add: client0_def)
  have ok: "fst ?R = Inr ()" by (simp add: table_eval)
  then have run: "?R = (Inr (), snd ?R)" by (metis prod.collapse)
  have d: "distinct (map fst ?r)" and nk: "''key'' \<notin> fst ` set ?r" by simp_all
  from C5_second_insert_fails [OF cols run d nk, of "[(''col'', JStr ''b'')]"] cols ok
  show ?thesis by simp
qed

text \<open>
  The claim as stated fails where r2 does not validate: after \<^verbatim>\<open>insert("row1", {col: "a"})\<close>
  on a schema that declares only \<open>col\<close>, \<^verbatim>\<open>insert("row1", {val: 1})\<close> fails with the
  validation error naming \<open>val\<close>, not with AlreadyExistsError.
\<close>

theorem C5_counterexample:
  "fst (TableClient_insert client0 ''row1'' [(''col'', JStr ''a'')] Map.empty) = Inr ()
   \<and> fst (TableClient_insert client0 ''row1'' [(''val'', JNum 1)]
           (snd (TableClient_insert client0 ''row1'' [(''col'', JStr ''a'')] Map.empty)))
       = Inl (SchemaValidationError ''val'')
   \<and> SchemaValidationError ''val'' \<noteq> AlreadyExistsError ''row1''"
  by (simp add: table_eval)

subsection \<open>delete, then get and tryGet\<close>

text \<open>
  C6. After delete(k) succeeds, get(k) fails with NotFoundError and tryGet(k) returns the
  absent marker; on any key that is missing tryGet returns the absent marker and does not
  fail.
\<close>

theorem C6_delete_then_read:
  assumes "TableClient_delete c k t = (Inr (), t1)"
  shows "TableClient_get Json_parse c k t1 = Inl (NotFoundError k)
     \<and> TableClient_tryGet Json_parse Json_stringify c k t1 = Inr None
     \<and> (\<forall>k' t'. \<not> row_exists t' k'
          \<longrightarrow> TableClient_tryGet Json_parse Json_stringify c k' t' = Inr None)"
  using assms
  by (auto simp: TableClient_delete_def TableClient_get_def TableClient_tryGet_def
      row_exists_def row_delete_def split: if_splits)

theorem C6_delete_then_read_witness:
  "TableClient_delete client0 ''row1'' [''row1'' \<mapsto> [(''col'', JStr ''a'')]]
     = (Inr (), Map.empty)
   \<and> TableClient_get Inr client0 ''row1'' Map.empty = Inl (NotFoundError ''row1'')
   \<and> TableClient_tryGet Inr (\<lambda>j. []) client0 ''row1'' Map.empty = Inr None
   \<and> \<not> row_exists Map.empty ''row2''
   \<and> TableClient_tryGet Inr (\<lambda>j. []) client0 ''row2'' Map.empty = Inr None"
proof -
  have run: "TableClient_delete client0 ''row1'' [''row1'' \<mapsto> [(''col'', JStr ''a'')]]
               = (Inr (), Map.empty)"
    by (simp add: TableClient_delete_def row_exists_def row_delete_def)
  have miss: "\<not> row_exists Map.empty ''row2''" by (simp add: row_exists_def)
  from C6_delete_then_read [OF run, of Inr "\<lambda>j. []"] run miss show ?thesis by blast
qed

subsection \<open>Writes of rows with undeclared fields\<close>

text \<open>
  C7. For insert, update and upsert, and every row with a field that the column schema
  does not declare, the operation fails with a SchemaValidationError that names an
  undeclared field of the row, and the table is left as it was.
\<close>

theorem C7_undeclared_field_rejected:
  assumes "columns c = Some cols" and "f \<in> fst ` set r" and "f \<notin> fst ` set cols"
  shows "\<exists>g. g \<in> fst ` set r \<and> g \<notin> fst ` set cols
      \<and> TableClient_insert c k r t = (Inl (SchemaValidationError g), t)
      \<and> TableClient_update c k r t = (Inl (SchemaValidationError g), t)
      \<and> TableClient_upsert c k r t = (Inl (SchemaValidationError g), t)"
proof -
  from validateRow_undeclared [OF assms(2,3)] obtain g where
    g: "g \<in> fst ` set r" "g \<notin> fst ` set cols"
       "validateRow r cols = Inl (SchemaValidationError g)"
    by blast
  with assms(1) have "validate_columns c r = Inl (SchemaValidationError g)"
    by (simp add: validate_columns_def)
  with g(1,2) show ?thesis
    by (auto simp: TableClient_insert_def TableClient_update_def TableClient_upsert_def)
qed

text \<open>The scenario of the spec: \<^verbatim>\<open>insert("row1", {col: "a", val: 1})\<close>, only \<open>col\<close> declared.\<close>

theorem C7_undeclared_field_rejected_witness:
  "columns client0 = Some [(''col'', JStr ''string'')]
   \<and> ''val'' \<in> fst ` set [(''col'', JStr ''a''), (''val'', JNum 1)]
   \<and> ''val'' \<notin> fst ` set [(''col'', JStr ''string'')]
   \<and> (\<exists>g. g \<in> fst ` set [(''col'', JStr ''a''), (''val'', JNum 1)]
        \<and> g \<notin> fst ` set [(''col'', JStr ''string'')]
        \<and> TableClient_insert client0 ''row1'' [(''col'', JStr ''a''), (''val'', JNum 1)]
             Map.empty = (Inl (SchemaValidationError g), Map.empty)
        \<and> TableClient_update client0 ''row1'' [(''col'', JStr ''a''), (''val'', JNum 1)]
             Map.empty = (Inl (SchemaValidationError g), Map.empty)
        \<and> TableClient_upsert client0 ''row1'' [(''col'', JStr ''a''), (''val'', JNum 1)]
             Map.empty = (Inl (SchemaValidationError g), Map.empty))"
proof -
  have cols: "columns client0 = Some [(''col'', JStr ''string'')]" by (simp add: client0_def)
  have a: "''val'' \<in> fst ` set [(''col'', JStr ''a''), (''val'', JNum 1)]" by simp
  have b: "''val'' \<notin> fst ` set [(''col'', JStr ''string'')]" by simp
  from C7_undeclared_field_rejected [OF cols a b, of "''row1''" Map.empty] cols a b
  show ?thesis by blast
qed

subsection \<open>Validation comes before the existence check\<close>

text \<open>
  C10. In insert, update and upsert the row is validated before the existence check and
  before any call that changes the table: when validation fails, each of the three fails
  with that SchemaValidationError whether or not the key exists, and the table is left as
  it was. Insert of an invalid row on a key that exists reports the schema error, not
  AlreadyExistsError.
\<close>

theorem C10_validation_first:
  assumes "columns c = Some cols" and "validateRow r cols = Inl e"
  shows "TableClient_insert c k r t = (Inl e, t)
     \<and> TableClient_update c k r t = (Inl e, t)
     \<and> TableClient_upsert c k r t = (Inl e, t)
     \<and> (\<exists>f. e = SchemaValidationError f)
     \<and> e \<noteq> AlreadyExistsError k \<and> e \<noteq> NotFoundError k"
proof -
  from assms have "validate_columns c r = Inl e" by (simp add: validate_columns_def)
  moreover from validateRow_Inl [OF assms(2)] obtain f where "e = SchemaValidationError f"
    by blast
  ultimately show ?thesis
    by (simp add: TableClient_insert_def TableClient_update_def TableClient_upsert_def
        AlreadyExistsError_def NotFoundError_def)
qed

text \<open>An invalid row on a key that exists, and on one that does not.\<close>

theorem C10_validation_first_witness:
  "columns client0 = Some [(''col'', JStr ''string'')]
   \<and> validateRow [(''val'', JNum 1)] [(''col'', JStr ''string'')]
       = Inl (SchemaValidationError ''val'')
   \<and> row_exists [''row1'' \<mapsto> [(''col'', JStr ''a'')]] ''row1''
   \<and> TableClient_insert client0 ''row1'' [(''val'', JNum 1)] [''row1'' \<mapsto> [(''col'', JStr ''a'')]]
       = (Inl (SchemaValidationError ''val''), [''row1'' \<mapsto> [(''col'', JStr ''a'')]])
   \<and> TableClient_update client0 ''row2'' [(''val'', JNum 1)] [''row1'' \<mapsto> [(''col'', JStr ''a'')]]
       = (Inl (SchemaValidationError ''val''), [''row1'' \<mapsto> [(''col'', JStr ''a'')]])
   \<and> TableClient_upsert client0 ''row1'' [(''val'', JNum 1)] [''row1'' \<mapsto> [(''col'', JStr ''a'')]]
       = (Inl (SchemaValidationError ''val''), [''row1'' \<mapsto> [(''col'', JStr ''a'')]])"
proof -
  let ?t = "[''row1'' \<mapsto> [(''col'', JStr ''a'')]]"
  have cols: "columns client0 = Some [(''col'', JStr ''string'')]" by (simp add: client0_def)
  have bad: "validateRow [(''val'', JNum 1)] [(''col'', JStr ''string'')]
               = Inl (SchemaValidationError ''val'')" by simp
  have ex: "row_exists ?t ''row1''" by (simp add: row_exists_def)
  from C10_validation_first [OF cols bad, of "''row1''" ?t]
    C10_validation_first [OF cols bad, of "''row2''" ?t] cols bad ex
  show ?thesis by blast
qed


end
